theory Spec2Isabelle
  imports Complex_Main "HOL-Library.Word"
begin

section \<open>Per-axis bases and the orchestrator\<close>

text \<open>
  The 1D bases are external collaborators (\<open>shenfun.spectralbase\<close>, \<open>shenfun.fourier.bases\<close>).
  \<open>tensorproductspace.py\<close> reads only a few of their attributes; those are the fields of
  the record below. \<open>cls\<close> records which of the \<open>isinstance\<close> tests of the source a base
  passes (\<open>R2CBasis\<close>, \<open>C2CBasis\<close>, or neither); \<open>family\<close> is the string returned by
  \<open>base.family()\<close>; \<open>base_shape\<close> is \<open>base.shape(forward_output)\<close>; \<open>base_dim\<close> is
  \<open>base.dim()\<close>; \<open>axis\<close> is the attribute \<open>base.axis\<close> that the constructor of the
  orchestrator sets to the position of the base; \<open>has_nonhomogeneous_bcs\<close> is the
  attribute of the base of that name. Two bases are compared as records, so bases at
  different positions differ.
\<close>

datatype basis_class = R2CBasis | C2CBasis | OtherBasis

record basis =
  family :: string
  cls :: basis_class
  N :: nat
  padding_factor :: rat
  axis :: nat
  base_shape :: "bool \<Rightarrow> nat"
  base_dim :: nat
  has_nonhomogeneous_bcs :: bool

text \<open>
  A constructed \<open>TensorProductSpace\<close>. \<open>bases\<close> and \<open>axes\<close> are the attributes of the
  same name. \<open>shape\<close> is the method the class inherits from \<open>mpi4py_fft.PFFT\<close> (the class
  does not define it): the shape of the process-local block, that is the subshape of the
  input pencil for \<open>forward_output = False\<close> and of the output pencil for \<open>True\<close>.
  It is the shape that \<open>local_mesh\<close> and \<open>local_wavenumbers\<close> broadcast the local slices
  to. It is a parameter of the model.
\<close>

record tps =
  bases :: "basis list"
  axes :: "nat list list"
  shape :: "bool \<Rightarrow> nat list"

text \<open>
  \<open>np.prod\<close> of a tuple of Python ints is computed in \<open>int64\<close> and wraps around.
\<close>

type_synonym int64 = "64 word"

definition np_prod :: "nat list \<Rightarrow> int64" where
  "np_prod xs = prod_list (map of_nat xs)"

subsection \<open>Queries of \<open>TensorProductSpace\<close>\<close>

definition dims :: "tps \<Rightarrow> nat list" where
  "dims T = map base_dim (bases T)"

text \<open>\<open>TensorProductSpace.dim\<close>: \<open>np.prod(self.dims())\<close>.\<close>

definition tps_dim :: "tps \<Rightarrow> int64" where
  "tps_dim T = np_prod (dims T)"

text \<open>\<open>TensorProductSpace.size\<close>: \<open>np.prod(self.shape(forward_output))\<close>.\<close>

definition size_tps :: "tps \<Rightarrow> bool \<Rightarrow> int64" where
  "size_tps T forward_output = np_prod (shape T forward_output)"

definition global_shape :: "tps \<Rightarrow> bool \<Rightarrow> nat list" where
  "global_shape T forward_output = map (\<lambda>base. base_shape base forward_output) (bases T)"

definition get_nonperiodic_axes :: "tps \<Rightarrow> nat list" where
  "get_nonperiodic_axes T =
     map fst (filter (\<lambda>(axis, base). \<not> (family base = ''fourier''))
                (enumerate 0 (bases T)))"

subsection \<open>Point evaluation: choice of the implementation\<close>

text \<open>
  \<open>TensorProductSpace.eval\<close> ends in a three-way dispatch on \<open>method\<close>, after
  \<open>method\<close> has been overwritten when more than one axis is non-periodic. The model
  returns which of the three private methods is called.
\<close>

datatype strategy = Eval_lm_cython | Eval_cython | Eval_python

definition eval_strategy :: "tps \<Rightarrow> int \<Rightarrow> strategy" where
  "eval_strategy T method0 =
     (let method = (if length (get_nonperiodic_axes T) > 1 then 2 else method0)
      in if method = 0 then Eval_lm_cython
         else if method = 1 then Eval_cython
         else Eval_python)"

section \<open>Construction of the orchestrator\<close>

text \<open>
  Exceptions are values: a function that can raise returns \<open>error + 'a\<close>, with \<open>Inl\<close> for
  the exception. A failed \<open>assert\<close> is \<open>AssertionError\<close>. \<open>ExternalError\<close> stands for an
  exception that leaves an external collaborator, whatever its class.
\<close>

datatype error = AssertionError | IndexError | ValueError | NotImplementedError
  | UnboundLocalError | ExternalError

definition bind_err :: "error + 'a \<Rightarrow> ('a \<Rightarrow> error + 'b) \<Rightarrow> error + 'b" where
  "bind_err m f = (case m of Inl e \<Rightarrow> Inl e | Inr x \<Rightarrow> f x)"

subsection \<open>The \<open>axes\<close> argument\<close>

text \<open>
  The argument \<open>axes\<close> is \<open>None\<close>, one integer, or a sequence whose entries are integers
  or sequences of integers. Lines 72 to 94 of the constructor turn it into a list of
  groups, adding \<open>len(shape)\<close> to negative entries, and check every group on its own:
  \<open>min\<close> (which raises \<open>ValueError\<close> on an empty group) at least 0, \<open>max\<close> below
  \<open>len(shape)\<close>, between 1 and \<open>len(shape)\<close> entries, no entry twice.
\<close>

datatype axis_entry = AxInt int | AxSeq "int list"

datatype axes_arg = AxesNone | AxesScalar int | AxesSeq "axis_entry list"

definition wrap_axis :: "nat \<Rightarrow> int \<Rightarrow> int" where
  "wrap_axis n a = (if a < 0 then a + int n else a)"

fun entry_group :: "nat \<Rightarrow> axis_entry \<Rightarrow> int list" where
  "entry_group n (AxInt ax) = [wrap_axis n ax]"
| "entry_group n (AxSeq ax) = map (wrap_axis n) ax"

definition check_group :: "nat \<Rightarrow> int list \<Rightarrow> error + nat list" where
  "check_group n g =
     (if g = [] then Inl ValueError
      else if \<not> (Min (set g) \<ge> 0) then Inl AssertionError
      else if \<not> (Max (set g) < int n) then Inl AssertionError
      else if \<not> (0 < length g \<and> length g \<le> n) then Inl AssertionError
      else if \<not> (sort g = sort (remdups g)) then Inl AssertionError
      else Inr (map nat g))"

fun normalize_groups :: "nat \<Rightarrow> axis_entry list \<Rightarrow> error + nat list list" where
  "normalize_groups n [] = Inr []"
| "normalize_groups n (ax # rest) =
     bind_err (check_group n (entry_group n ax))
       (\<lambda>g. bind_err (normalize_groups n rest) (\<lambda>gs. Inr (g # gs)))"

text \<open>
  \<open>shape0\<close> is \<open>list(self.global_shape())\<close>, one extent per base.
\<close>

definition init_axes :: "nat list \<Rightarrow> axes_arg \<Rightarrow> error + nat list list" where
  "init_axes shape0 axes0 =
     (if shape0 = [] then Inl AssertionError
      else if \<not> (Min (set shape0) > 0) then Inl AssertionError
      else normalize_groups (length shape0)
             (case axes0 of
                AxesNone \<Rightarrow> map (\<lambda>i. AxInt (int i)) [0..<length shape0]
              | AxesScalar a \<Rightarrow> [AxInt a]
              | AxesSeq entries \<Rightarrow> entries))"


definition is_axis_permutation :: "nat \<Rightarrow> nat list list \<Rightarrow> bool" where
  "is_axis_permutation n axs = (sort (concat axs) = [0..<n])"

subsection \<open>Element types, the process grid and the stages\<close>

text \<open>
  A dtype is known to the constructor through \<open>dtype.char\<close> only: one of \<open>fdg\<close> (real),
  one of \<open>FDG\<close> (complex), or something else, which the constructor rejects.
\<close>

datatype dtype = RealFloat | ComplexFloat | OtherDtype

text \<open>
  The communicator is either a \<open>Subcomm\<close>, given by its size along each axis, or a plain
  communicator, given by its size and by what the external \<open>Subcomm(comm, dims)\<close> makes
  of the list \<open>dims\<close> the constructor builds (a 0 is an extent left to the library).
\<close>

datatype comm_arg = MPIComm nat "nat list \<Rightarrow> nat list" | Subcomm "nat list"

text \<open>
  One entry of \<open>self.xfftn\<close>: the group of axes the base was planned with, the base, and
  the dtypes of the input and output arrays of its planned \<open>forward\<close> transform. One entry
  of \<open>self.transfer\<close>: the dtype the transfer was created with. \<open>forward\<close> is the list of
  stages of \<open>self.forward\<close>, in the order in which the transform runs them.
\<close>

record stage =
  stage_axes :: "nat list"
  stage_base :: basis
  in_dtype :: dtype
  out_dtype :: dtype

record pipeline =
  p_axes :: "nat list list"
  xfftn :: "stage list"
  transfer :: "dtype list"
  forward :: "stage list"

text \<open>
  \<open>base.plan(subshape, axes, dtype, kw)\<close> and the \<open>forward\<close> transform it creates belong to
  the bases, which are not among the sources. The constructor takes them as a parameter:
  a planner is given the base, the global shape of the pencil the base is planned on, the
  group of axes and the dtype; it raises, or it yields what the constructor reads
  afterwards, the dtypes of \<open>forward.input_array\<close> and \<open>forward.output_array\<close> and their
  extents along the last axis of the group.
\<close>

record plan_result =
  in_dt :: dtype
  out_dt :: dtype
  in_extent :: nat
  out_extent :: nat

type_synonym planner = "basis \<Rightarrow> nat list \<Rightarrow> nat list \<Rightarrow> dtype \<Rightarrow> error + plan_result"


text \<open>
  Modelled from the spec: a planner that follows the dtype rule, for the concrete
  orchestrators below. A real-to-complex base takes real input only and a complex Fourier
  base complex input only; the extents are those of \<open>base.shape\<close>.
\<close>

definition spec_plan :: planner where
  "spec_plan base shp axs d =
     (if cls base = R2CBasis \<and> d \<noteq> RealFloat then Inl ExternalError
      else if cls base = C2CBasis \<and> d \<noteq> ComplexFloat then Inl ExternalError
      else Inr \<lparr>in_dt = d,
                out_dt = (if cls base = R2CBasis then ComplexFloat else d),
                in_extent = base_shape base False,
                out_extent = base_shape base True\<rparr>)"

subsection \<open>Configuration from the physical side\<close>

text \<open>
  The body shared by the first stage (lines 154 to 163) and by each round of the loop
  (lines 168 to 177): take the base of the last axis of the group, plan it with the
  current dtype, and pass on the dtype and the extent of its output when they differ.
\<close>

definition plan_stage :: "planner \<Rightarrow> basis list \<Rightarrow> nat list \<Rightarrow> dtype \<Rightarrow> nat list
    \<Rightarrow> error + (stage \<times> dtype \<times> nat list)" where
  "plan_stage plan bs axs d shp =
     (if axs = [] then Inl IndexError
      else if \<not> (last axs < length bs) then Inl IndexError
      else if \<not> (last axs < length shp) then Inl IndexError
      else
        bind_err (plan (bs ! last axs) shp axs d)
          (\<lambda>r. let st = \<lparr>stage_axes = axs, stage_base = bs ! last axs,
                            in_dtype = in_dt r, out_dtype = out_dt r\<rparr>
                in if \<not> (shp ! last axs = out_extent r \<and> in_dt r = out_dt r)
                   then Inr (st, out_dt r, shp[last axs := out_extent r])
                   else Inr (st, d, shp)))"

text \<open>
  The loop over \<open>reversed(self.axes[:-1])\<close>: a transfer with the current dtype, then the
  stage.
\<close>

fun plan_rest :: "planner \<Rightarrow> basis list \<Rightarrow> nat list list \<Rightarrow> dtype \<Rightarrow> nat list
    \<Rightarrow> error + (stage list \<times> dtype list)" where
  "plan_rest plan bs [] d shp = Inr ([], [])"
| "plan_rest plan bs (axs # rest) d shp =
     bind_err (plan_stage plan bs axs d shp)
       (\<lambda>(st, d', shp'). bind_err (plan_rest plan bs rest d' shp')
          (\<lambda>(sts, trs). Inr (st # sts, d # trs)))"

text \<open>
  Lines 153 to 196: \<open>self.forward\<close> runs the stages in the order of \<open>self.xfftn\<close>.
\<close>

definition configure_forward :: "planner \<Rightarrow> basis list \<Rightarrow> nat list list \<Rightarrow> dtype \<Rightarrow> nat list
    \<Rightarrow> error + pipeline" where
  "configure_forward plan bs axs d shp =
     (if axs = [] then Inl IndexError
      else bind_err (plan_stage plan bs (last axs) d shp)
        (\<lambda>(st, d', shp'). bind_err (plan_rest plan bs (rev (butlast axs)) d' shp')
           (\<lambda>(sts, trs). Inr \<lparr>p_axes = axs, xfftn = st # sts, transfer = trs,
                                 forward = st # sts\<rparr>)))"

subsection \<open>Configuration from the spectral side\<close>

text \<open>
  \<open>configure_backwards\<close> walks the groups from the first to the last. A real-to-complex
  base is planned with a real dtype whatever the current one is; afterwards the dtype and
  the extent of the input array of the stage are passed on when they differ.
\<close>

definition plan_stage_backwards :: "planner \<Rightarrow> basis list \<Rightarrow> nat list \<Rightarrow> dtype \<Rightarrow> nat list
    \<Rightarrow> error + (stage \<times> dtype \<times> nat list)" where
  "plan_stage_backwards plan bs axs d shp =
     (if axs = [] then Inl IndexError
      else if \<not> (last axs < length bs) then Inl IndexError
      else if \<not> (last axs < length shp) then Inl IndexError
      else
        let d1 = (if cls (bs ! last axs) = R2CBasis then RealFloat else d)
        in bind_err (plan (bs ! last axs) shp axs d1)
             (\<lambda>r. let st = \<lparr>stage_axes = axs, stage_base = bs ! last axs,
                               in_dtype = in_dt r, out_dtype = out_dt r\<rparr>
                   in if \<not> (shp ! last axs = in_extent r \<and> in_dt r = out_dt r)
                      then Inr (st, in_dt r, shp[last axs := in_extent r])
                      else Inr (st, d1, shp)))"

fun plan_rest_backwards :: "planner \<Rightarrow> basis list \<Rightarrow> nat list list \<Rightarrow> dtype \<Rightarrow> nat list
    \<Rightarrow> error + (stage list \<times> dtype list)" where
  "plan_rest_backwards plan bs [] d shp = Inr ([], [])"
| "plan_rest_backwards plan bs (axs # rest) d shp =
     bind_err (plan_stage_backwards plan bs axs d shp)
       (\<lambda>(st, d', shp'). bind_err (plan_rest_backwards plan bs rest d' shp')
          (\<lambda>(sts, trs). Inr (st # sts, d # trs)))"

text \<open>
  Lines 206 to 280: \<open>self.forward\<close> runs the stages of \<open>self.xfftn\<close> in reverse.
\<close>

definition configure_backwards :: "planner \<Rightarrow> basis list \<Rightarrow> nat list list \<Rightarrow> dtype \<Rightarrow> nat list
    \<Rightarrow> error + pipeline" where
  "configure_backwards plan bs axs d shp =
     (if axs = [] then Inl IndexError
      else bind_err (plan_stage_backwards plan bs (hd axs) d shp)
        (\<lambda>(st, d', shp'). bind_err (plan_rest_backwards plan bs (tl axs) d' shp')
           (\<lambda>(sts, trs). Inr \<lparr>p_axes = axs, xfftn = st # sts, transfer = trs,
                                 forward = rev (st # sts)\<rparr>)))"

subsection \<open>Collapsing and the process grid\<close>

text \<open>
  Collapsing of Fourier axes (lines 138 to 150). \<open>F ax\<close> holds when the base at \<open>ax\<close> is of
  the Fourier family and the process grid has extent 1 along \<open>ax\<close>. The state of the loop
  is the list \<open>groups\<close> and the flag \<open>F0\<close>.
\<close>

definition collapse_step :: "(nat \<Rightarrow> bool) \<Rightarrow> nat list \<Rightarrow> nat list list \<times> bool
    \<Rightarrow> nat list list \<times> bool" where
  "collapse_step F ax st =
     (case st of (groups, F0) \<Rightarrow>
        (if F0 \<and> F (last ax) then ((last ax # hd groups) # tl groups)
         else ax # groups,
         F (last ax)))"

definition collapse_groups :: "basis list \<Rightarrow> nat list \<Rightarrow> nat list list \<Rightarrow> nat list list" where
  "collapse_groups bs procs axs =
     (let F = (\<lambda>ax. family (bs ! ax) = ''fourier'' \<and> procs ! ax = 1)
      in fst (fold (collapse_step F) (rev (butlast axs)) ([last axs], F (last (last axs)))))"

definition make_subcomm :: "comm_arg \<Rightarrow> nat \<Rightarrow> nat list \<Rightarrow> bool \<Rightarrow> error + nat list" where
  "make_subcomm comm nd last_group slab =
     (case comm of
        Subcomm sizes \<Rightarrow>
          if slab then Inl AssertionError
          else if \<not> (length sizes = nd) then Inl AssertionError
          else if \<not> (sizes ! last last_group = 1) then Inl AssertionError
          else Inr sizes
      | MPIComm sz compute_dims \<Rightarrow>
          if slab
          then Inr (compute_dims ((replicate nd 1)[(last last_group + 1) mod nd := sz]))
          else Inr (compute_dims (fold (\<lambda>ax dims. dims[ax := 1]) last_group (replicate nd 0))))"







section \<open>Composite spaces\<close>

text \<open>
  A member of a \<open>MixedTensorProductSpace\<close> is either an orchestrator or another
  composite space; \<open>hasattr(l, 'spaces')\<close> tells them apart.
\<close>

datatype space = TPS tps | Mixed "space list"

text \<open>
  \<open>_recursiveflatten(l, s)\<close> appends to the list \<open>s\<close> in place; the model returns the
  extended list.
\<close>

fun recursiveflatten :: "space \<Rightarrow> tps list \<Rightarrow> tps list" where
  "recursiveflatten (TPS l) s = s @ [l]"
| "recursiveflatten (Mixed spaces) s = fold (\<lambda>i s'. recursiveflatten i s') spaces s"

definition flatten :: "space \<Rightarrow> tps list" where
  "flatten self = recursiveflatten self []"

text \<open>
  \<open>MixedTensorProductSpace.dim\<close>: \<open>s = 0\<close>, then \<open>s += space.dim()\<close> for each leaf, in
  \<open>int64\<close> arithmetic as the summands are \<open>np.prod\<close> results.
\<close>

definition mixed_dim :: "space \<Rightarrow> int64" where
  "mixed_dim self = foldl (\<lambda>s sp. s + tps_dim sp) 0 (flatten self)"

text \<open>
  The leaf list as the specification words it: depth first, left to right.
\<close>

fun leaves :: "space \<Rightarrow> tps list" where
  "leaves (TPS l) = [l]"
| "leaves (Mixed spaces) = concat (map leaves spaces)"

section \<open>Boundary values\<close>

subsection \<open>Boundary specifications\<close>

text \<open>
  A symbolic boundary value is a \<open>sympy\<close> expression. The model keeps the expression
  tree, its free symbols, the substitution of a number for a symbol, and its value under
  an assignment of the symbols. \<open>sympy\<close> does not expand products of sums on its own, so a
  tree can denote zero without being the number zero.

  A symbol is its name together with its assumptions, and two symbols are the same when
  both agree: \<open>sp.symbols('t')\<close> and the key \<open>'t'\<close> of \<open>subs\<close> are the symbol \<open>t\<close> without
  assumptions, and differ from \<open>sp.symbols('t', real=True)\<close>. \<open>str(sym)\<close> is the name.
\<close>

type_synonym symbol = "string \<times> string list"

definition plain_t :: symbol where
  "plain_t = (''t'', [])"

datatype expr = Sym symbol | Const rat | Add expr expr | Mul expr expr | Power expr nat

fun free_symbols :: "expr \<Rightarrow> symbol list" where
  "free_symbols (Sym v) = [v]"
| "free_symbols (Const c) = []"
| "free_symbols (Add a b) = remdups (free_symbols a @ free_symbols b)"
| "free_symbols (Mul a b) = remdups (free_symbols a @ free_symbols b)"
| "free_symbols (Power a n) = free_symbols a"

fun subs :: "expr \<Rightarrow> symbol \<Rightarrow> rat \<Rightarrow> expr" where
  "subs (Sym v) t c = (if v = t then Const c else Sym v)"
| "subs (Const k) t c = Const k"
| "subs (Add a b) t c = Add (subs a t c) (subs b t c)"
| "subs (Mul a b) t c = Mul (subs a t c) (subs b t c)"
| "subs (Power a n) t c = Power (subs a t c) n"

fun eval_expr :: "(symbol \<Rightarrow> rat) \<Rightarrow> expr \<Rightarrow> rat" where
  "eval_expr env (Sym v) = env v"
| "eval_expr env (Const c) = c"
| "eval_expr env (Add a b) = eval_expr env a + eval_expr env b"
| "eval_expr env (Mul a b) = eval_expr env a * eval_expr env b"
| "eval_expr env (Power a n) = eval_expr env a ^ n"

text \<open>
  A slot of a boundary specification, and an entry of a snapshot. The constructor of a
  slot is the branch of the \<open>isinstance\<close> chain that takes it, in the order of the source:
  \<open>Number\<close> first, then \<open>np.ndarray\<close>, then \<open>sp.Expr\<close>. A \<open>sympy\<close> number is a
  \<open>Number\<close>. \<open>'a\<close> is the type of arrays. A slot of any other type, for which the
  source raises \<open>NotImplementedError\<close>, is not a value of this type.
\<close>

datatype 'a bcvalue = Number rat | NdArray 'a | Expr expr

subsection \<open>The orchestrator as the splicer sees it\<close>

text \<open>
  \<open>set_tensor_bcs\<close> runs the objects of \<open>T.forward\<close> one by one. The trace of a run is
  the list of these calls: \<open>Stage i\<close> for \<open>T.forward._xfftn[i]()\<close> and \<open>Transfer i\<close> for
  \<open>T.forward._transfer[i](arrayA, arrayB)\<close>.
\<close>

datatype event = Stage nat | Transfer nat

text \<open>
  The numerical collaborators are parameters: the stages and transfers of \<open>T.forward\<close>
  as functions from the input to the output array, \<open>Array(T)\<close>, the \<open>stop\<close> of
  \<open>T.local_slice(False)\<close> along an axis, the assignment \<open>b[this_base.si[k]] = v\<close>, the copy
  \<open>b_hat[this_base.si[k]].copy()\<close>, the value of the lambdified expression on the planes
  \<open>X[k][this_base.si[j]]\<close> of the local mesh, and \<open>np.all(a == 0)\<close>.
\<close>

record 'a tensor_env =
  fwd_xfftn :: "('a \<Rightarrow> 'a) list"
  fwd_transfer :: "('a \<Rightarrow> 'a) list"
  new_Array :: 'a
  local_slice_stop :: "nat \<Rightarrow> nat"
  set_plane :: "int \<Rightarrow> 'a bcvalue \<Rightarrow> 'a \<Rightarrow> 'a"
  get_plane :: "int \<Rightarrow> 'a \<Rightarrow> 'a"
  lambdify_on_mesh :: "expr \<Rightarrow> nat \<Rightarrow> 'a bcvalue"
  np_all_zero :: "'a \<Rightarrow> bool"

text \<open>
  The second argument of \<open>set_tensor_bcs\<close> is a single base or an orchestrator.
\<close>

datatype 'a space_arg = Base1D basis | Tensor tps "'a tensor_env"

text \<open>The attributes of a \<open>BoundaryValues\<close> object.\<close>

record 'a boundary_values =
  bv_base :: basis
  tensorproductspace :: "'a space_arg option"
  bc :: "'a bcvalue list"
  bcs :: "'a bcvalue list"
  bcs_final :: "'a bcvalue list"
  bv_axis :: nat
  bc_time :: rat
  number_of_bases_after_this :: "nat option"

text \<open>\<open>xs[i] = v\<close> on a Python list.\<close>

definition list_set :: "'x list \<Rightarrow> nat \<Rightarrow> 'x \<Rightarrow> error + 'x list" where
  "list_set xs i v = (if i < length xs then Inr (xs[i := v]) else Inl IndexError)"

subsection \<open>\<open>update_bcs\<close> and the constructor\<close>

text \<open>
  The loop \<open>self.bcs[i] = bci\<close> of \<open>update_bcs\<close>; every slot of the model passes the
  \<open>isinstance\<close> test of the loop.
\<close>

fun assign_from :: "'x list \<Rightarrow> nat \<Rightarrow> 'x list \<Rightarrow> error + 'x list" where
  "assign_from xs i [] = Inr xs"
| "assign_from xs i (v # vs) = bind_err (list_set xs i v) (\<lambda>xs'. assign_from xs' (Suc i) vs)"

definition update_bcs :: "'a boundary_values \<Rightarrow> 'a bcvalue list option
    \<Rightarrow> error + 'a boundary_values" where
  "update_bcs self bc0 =
     (case bc0 of
        None \<Rightarrow> Inr self
      | Some new_bc \<Rightarrow>
          if \<not> (length new_bc = 2 \<or> length new_bc = 4) then Inl AssertionError
          else bind_err (assign_from (bcs self) 0 new_bc)
                 (\<lambda>bcs'. Inr (self\<lparr>bc := new_bc, bcs := bcs', bcs_final := bcs'\<rparr>)))"

definition BoundaryValues :: "basis \<Rightarrow> 'a bcvalue list \<Rightarrow> error + 'a boundary_values" where
  "BoundaryValues T bc0 =
     update_bcs \<lparr>bv_base = T, tensorproductspace = None, bc = bc0,
                 bcs = replicate (length bc0) (Number 0),
                 bcs_final = replicate (length bc0) (Number 0),
                 bv_axis = 0, bc_time = 0, number_of_bases_after_this = None\<rparr> (Some bc0)"

text \<open>\<open>BoundaryValues.has_nonhomogeneous_bcs\<close>, with \<open>np.all(a == 0)\<close> as a parameter.\<close>

fun bv_has_nonhomogeneous_bcs :: "('a \<Rightarrow> bool) \<Rightarrow> 'a bcvalue list \<Rightarrow> bool" where
  "bv_has_nonhomogeneous_bcs all_zero [] = False"
| "bv_has_nonhomogeneous_bcs all_zero (Number c # rest) =
     (if \<not> (c = 0) then True else bv_has_nonhomogeneous_bcs all_zero rest)"
| "bv_has_nonhomogeneous_bcs all_zero (NdArray a # rest) =
     (if \<not> all_zero a then True else bv_has_nonhomogeneous_bcs all_zero rest)"
| "bv_has_nonhomogeneous_bcs all_zero (Expr e # rest) = True"

subsection \<open>\<open>set_tensor_bcs\<close>\<close>

text \<open>
  The loop over \<open>reversed(T.axes)\<close> that counts the groups met before the group whose
  last base is \<open>this_base\<close>. The state is the pair of \<open>axis\<close> and
  \<open>number_of_bases_after_this\<close>.
\<close>

fun count_bases_after :: "basis list \<Rightarrow> basis \<Rightarrow> nat list list \<Rightarrow> nat option \<times> nat
    \<Rightarrow> error + (nat option \<times> nat)" where
  "count_bases_after bs this_base [] st = Inr st"
| "count_bases_after bs this_base (axs # rest) (ax, n) =
     (if axs = [] then Inl IndexError
      else if \<not> (last axs < length bs) then Inl IndexError
      else
        let base = bs ! last axs
        in if base = this_base then count_bases_after bs this_base rest (Some (axis base), n)
           else if ax = None then count_bases_after bs this_base rest (ax, n + 1)
           else count_bases_after bs this_base rest (ax, n))"

text \<open>
  \<open>'xyzrs'.index(str(sym))\<close> is the first position at which the name occurs in the
  string and raises \<open>ValueError\<close> when there is none; \<open>X[k]\<close> raises \<open>IndexError\<close> when the
  orchestrator has no axis \<open>k\<close>. The free symbols are visited in the order of the list
  \<open>free_symbols\<close>.
\<close>

fun str_index :: "string \<Rightarrow> string \<Rightarrow> nat option" where
  "str_index [] s = (if s = [] then Some 0 else None)"
| "str_index (c # h) s =
     (if take (length s) (c # h) = s then Some 0 else map_option Suc (str_index h s))"

fun mesh_symbols_ok :: "nat \<Rightarrow> string list \<Rightarrow> error + unit" where
  "mesh_symbols_ok nd [] = Inr ()"
| "mesh_symbols_ok nd (nm # rest) =
     (case str_index ''xyzrs'' nm of
        None \<Rightarrow> Inl ValueError
      | Some k \<Rightarrow> if \<not> (k < nd) then Inl IndexError else mesh_symbols_ok nd rest)"

text \<open>\<open>s.stop == int(this_base.N*this_base.padding_factor)\<close>.\<close>

definition owns_boundary :: "'a tensor_env \<Rightarrow> basis \<Rightarrow> nat \<Rightarrow> bool" where
  "owns_boundary env this_base ax =
     (int (local_slice_stop env ax) = \<lfloor>of_nat (N this_base) * padding_factor this_base\<rfloor>)"

text \<open>
  The loop \<open>for j, bci in enumerate(self.bc)\<close> that writes the boundary values into the
  array \<open>b\<close>; \<open>M\<close> is \<open>len(self.bc)\<close> and \<open>time\<close> is \<open>self.bc_time\<close>. The loop looks for
  a symbol whose name is \<open>t\<close> and substitutes for the symbol \<open>t\<close> without assumptions.
\<close>

fun fill_boundary :: "'a tensor_env \<Rightarrow> tps \<Rightarrow> basis \<Rightarrow> nat \<Rightarrow> rat \<Rightarrow> nat \<Rightarrow> nat
    \<Rightarrow> 'a bcvalue list \<Rightarrow> 'a \<Rightarrow> error + 'a" where
  "fill_boundary env T this_base ax time M j [] b = Inr b"
| "fill_boundary env T this_base ax time M j (Expr e # rest) b =
     (let bci = (if ''t'' \<in> set (map fst (free_symbols e)) then subs e plain_t time else e)
      in bind_err (mesh_symbols_ok (length (bases T)) (map fst (free_symbols bci)))
           (\<lambda>_. fill_boundary env T this_base ax time M (Suc j) rest
                  (if owns_boundary env this_base ax
                   then set_plane env (- int M + int j) (lambdify_on_mesh env bci j) b
                   else b)))"
| "fill_boundary env T this_base ax time M j (bci # rest) b =
     fill_boundary env T this_base ax time M (Suc j) rest
       (if owns_boundary env this_base ax then set_plane env (- int M + int j) bci b else b)"

text \<open>
  One call of a stage and of a transfer. The state is the array that travels through the
  buffers together with the trace. \<open>_transfer[i]\<close> writes into the input array of stage
  \<open>i + 1\<close>, which must exist.
\<close>

definition exec_stage :: "'a tensor_env \<Rightarrow> nat \<Rightarrow> 'a \<times> event list \<Rightarrow> error + 'a \<times> event list" where
  "exec_stage env i st =
     (if i < length (fwd_xfftn env)
      then Inr ((fwd_xfftn env ! i) (fst st), snd st @ [Stage i])
      else Inl IndexError)"

definition exec_transfer :: "'a tensor_env \<Rightarrow> nat \<Rightarrow> 'a \<times> event list \<Rightarrow> error + 'a \<times> event list" where
  "exec_transfer env i st =
     (if Suc i < length (fwd_xfftn env) \<and> i < length (fwd_transfer env)
      then Inr ((fwd_transfer env ! i) (fst st), snd st @ [Transfer i])
      else Inl IndexError)"

text \<open>
  The three branches on \<open>number_of_bases_after_this\<close> (lines 1208 to 1233). No branch
  assigns \<open>b_hat\<close> when the number is 3 or more: the result is \<open>None\<close> then.
\<close>

definition intermediate :: "'a tensor_env \<Rightarrow> nat \<Rightarrow> 'a \<Rightarrow> error + 'a option \<times> event list" where
  "intermediate env number_after b =
     (if number_after = 0 then Inr (Some b, [])
      else if number_after = 1 then
        bind_err (exec_stage env 0 (b, [])) (\<lambda>st.
        bind_err (exec_transfer env 0 st) (\<lambda>(arrayB, ev). Inr (Some arrayB, ev)))
      else if number_after = 2 then
        bind_err (exec_stage env 0 (b, [])) (\<lambda>st.
        bind_err (exec_transfer env 0 st) (\<lambda>st.
        bind_err (exec_stage env 1 st) (\<lambda>st.
        bind_err (exec_transfer env 1 st) (\<lambda>(arrayB, ev). Inr (Some arrayB, ev)))))
      else Inr (None, []))"

text \<open>
  The loop over \<open>range(len(T.forward._transfer))\<close> and the last stage
  \<open>T.forward._xfftn[-1]()\<close> (lines 1241 to 1250).
\<close>

fun forward_loop :: "'a tensor_env \<Rightarrow> nat list \<Rightarrow> 'a \<times> event list \<Rightarrow> error + 'a \<times> event list" where
  "forward_loop env [] st = Inr st"
| "forward_loop env (i # rest) st =
     bind_err (exec_stage env i st) (\<lambda>st.
     bind_err (exec_transfer env i st) (\<lambda>st. forward_loop env rest st))"

definition final :: "'a tensor_env \<Rightarrow> 'a \<Rightarrow> event list \<Rightarrow> error + 'a \<times> event list" where
  "final env b ev =
     bind_err (forward_loop env [0..<length (fwd_transfer env)] (b, ev)) (\<lambda>st.
       if fwd_xfftn env = [] then Inl IndexError
       else exec_stage env (length (fwd_xfftn env) - 1) st)"

text \<open>
  The loops \<open>self.bcs[i] = b_hat[this_base.si[-(len(self.bc))+i]].copy()\<close>, from \<open>i\<close> for
  \<open>k\<close> rounds; reading an unassigned \<open>b_hat\<close> raises \<open>UnboundLocalError\<close>.
\<close>

fun store_planes :: "'a tensor_env \<Rightarrow> nat \<Rightarrow> nat \<Rightarrow> nat \<Rightarrow> 'a option \<Rightarrow> 'a bcvalue list
    \<Rightarrow> error + 'a bcvalue list" where
  "store_planes env M i 0 b_hat xs = Inr xs"
| "store_planes env M i (Suc k) b_hat xs =
     (case b_hat of
        None \<Rightarrow> Inl UnboundLocalError
      | Some bh \<Rightarrow>
          bind_err (list_set xs i (NdArray (get_plane env (- int M + int i) bh)))
            (\<lambda>xs'. store_planes env M (Suc i) k b_hat xs'))"

text \<open>The loop \<open>self.bcs[i] = self.bcs_final[i] = 0\<close> of the short cut.\<close>

fun zero_snapshots :: "nat \<Rightarrow> nat \<Rightarrow> 'a bcvalue list \<times> 'a bcvalue list
    \<Rightarrow> error + 'a bcvalue list \<times> 'a bcvalue list" where
  "zero_snapshots i 0 st = Inr st"
| "zero_snapshots i (Suc k) (xs, fs) =
     bind_err (list_set xs i (Number 0)) (\<lambda>xs'.
     bind_err (list_set fs i (Number 0)) (\<lambda>fs'. zero_snapshots (Suc i) k (xs', fs')))"

text \<open>
  \<open>set_tensor_bcs\<close> returns the updated object and the trace of the stages and transfers
  it has run.
\<close>

definition set_tensor_bcs :: "'a boundary_values \<Rightarrow> basis \<Rightarrow> 'a space_arg
    \<Rightarrow> error + 'a boundary_values \<times> event list" where
  "set_tensor_bcs self0 this_base T0 =
     (let self = self0\<lparr>bv_axis := axis this_base, bv_base := this_base,
                        tensorproductspace := Some T0\<rparr>
      in case T0 of
           Base1D sb \<Rightarrow> Inr (self, [])
         | Tensor T env \<Rightarrow>
             if \<not> has_nonhomogeneous_bcs this_base then Inr (self, [])
             else
               bind_err (count_bases_after (bases T) this_base (rev (axes T)) (None, 0))
                 (\<lambda>(ax, number_after).
                    let self = self\<lparr>number_of_bases_after_this := Some number_after\<rparr>;
                        M = length (bc self)
                    in if \<not> bv_has_nonhomogeneous_bcs (np_all_zero env) (bc self)
                       then bind_err (zero_snapshots 0 M (bcs self, bcs_final self))
                              (\<lambda>(xs, fs). Inr (self\<lparr>bcs := xs, bcs_final := fs\<rparr>, []))
                       else
                         bind_err (fill_boundary env T this_base (bv_axis self) (bc_time self)
                                     M 0 (bc self) (new_Array env)) (\<lambda>b.
                         bind_err (intermediate env number_after b) (\<lambda>(b_hat, ev).
                         bind_err (store_planes env M 0 M b_hat (bcs self)) (\<lambda>xs.
                         bind_err (final env b ev) (\<lambda>(b_fin, ev').
                         bind_err (store_planes env M 0 M (Some b_fin) (bcs_final self)) (\<lambda>fs.
                           Inr (self\<lparr>bcs := xs, bcs_final := fs\<rparr>, ev'))))))))"

subsection \<open>\<open>update_bcs_time\<close>\<close>

text \<open>
  The loop of \<open>update_bcs_time\<close>; the state is \<open>self.bcs\<close> and the flag \<open>update_time\<close>.
  The test \<open>tt in bci.free_symbols\<close> compares symbols, with \<open>tt = sp.symbols('t')\<close>.
\<close>

fun subs_time :: "rat \<Rightarrow> nat \<Rightarrow> 'a bcvalue list \<Rightarrow> 'a bcvalue list \<times> bool
    \<Rightarrow> error + 'a bcvalue list \<times> bool" where
  "subs_time time i [] st = Inr st"
| "subs_time time i (Expr e # rest) (xs, upd) =
     (if plain_t \<in> set (free_symbols e)
      then bind_err (list_set xs i (Expr (subs e plain_t time)))
             (\<lambda>xs'. subs_time time (Suc i) rest (xs', True))
      else subs_time time (Suc i) rest (xs, upd))"
| "subs_time time i (bci # rest) st = subs_time time (Suc i) rest st"

definition update_bcs_time :: "'a boundary_values \<Rightarrow> rat
    \<Rightarrow> error + 'a boundary_values \<times> event list" where
  "update_bcs_time self time =
     bind_err (subs_time time 0 (bc self) (bcs self, False))
       (\<lambda>(xs, update_time).
          if update_time then
            (let self' = self\<lparr>bc_time := time, bcs := xs, bcs_final := xs\<rparr>
             in case tensorproductspace self' of
                  None \<Rightarrow> Inr (self', [])
                | Some T0 \<Rightarrow> set_tensor_bcs self' (bv_base self') T0)
          else Inr (self, []))"

section \<open>The constructor\<close>

text \<open>
  What the constructor obtains from its collaborators: the planner of the bases; the
  stages, transfers and arrays of the finished \<open>self.forward\<close> and the local mesh, as the
  boundary splicer uses them; the method \<open>shape\<close> inherited from \<open>PFFT\<close>; and the object
  \<open>base.bc\<close> of the base at each position.
\<close>

record 'a externals =
  base_plan :: planner
  forward_env :: "'a tensor_env"
  pfft_shape :: "bool \<Rightarrow> nat list"
  base_bc :: "nat \<Rightarrow> 'a boundary_values"

text \<open>
  What the constructor leaves behind: the pipeline, the orchestrator as its queries and
  the boundary splicer see it, and the \<open>bc\<close> objects that the last loop has updated, each
  with the position of its base.
\<close>

record 'a orchestrator =
  orch_pipeline :: pipeline
  orch_space :: tps
  orch_bcs :: "(nat \<times> 'a boundary_values) list"

text \<open>
  Lines 201 to 204: every base with \<open>has_nonhomogeneous_bcs\<close> has its boundary values
  set for the new orchestrator.
\<close>

fun set_bcs_loop :: "'a tensor_env \<Rightarrow> tps \<Rightarrow> (nat \<Rightarrow> 'a boundary_values) \<Rightarrow> (nat \<times> basis) list
    \<Rightarrow> error + (nat \<times> 'a boundary_values) list" where
  "set_bcs_loop env T bc_of [] = Inr []"
| "set_bcs_loop env T bc_of ((i, base) # rest) =
     (if has_nonhomogeneous_bcs base
      then bind_err (set_tensor_bcs (bc_of i) (base\<lparr>axis := i\<rparr>) (Tensor T env))
             (\<lambda>(bv, ev). bind_err (set_bcs_loop env T bc_of rest)
                (\<lambda>bvs. Inr ((i, bv) # bvs)))
      else set_bcs_loop env T bc_of rest)"

text \<open>
  \<open>TensorProductSpace.__init__\<close>. The scale factors of curvilinear coordinates (lines 61
  to 66) only rescale the mesh of the bases and are left out. Line 108 gives every base
  its position as \<open>axis\<close>. The
  dtype is inferred from the last base when it is not given. With \<open>backward_from_pencil\<close>
  the pipeline is configured from the spectral side, starting from \<open>global_shape(True)\<close>;
  without it the dtype is checked against the last base, the process grid is made,
  Fourier axes are collapsed on request when no base is padded, and the pipeline is
  configured from the physical side, starting from \<open>global_shape()\<close>.
\<close>

definition construct :: "'a externals \<Rightarrow> comm_arg \<Rightarrow> basis list \<Rightarrow> axes_arg \<Rightarrow> dtype option
    \<Rightarrow> bool \<Rightarrow> bool \<Rightarrow> bool \<Rightarrow> error + 'a orchestrator" where
  "construct ext comm bases0 axes0 dtype0 slab collapse_fourier backward_from_pencil =
     bind_err (init_axes (map (\<lambda>base. base_shape base False) bases0) axes0)
       (\<lambda>axs.
          if axs = [] then Inl IndexError
          else
            let bs = map (\<lambda>(i, base). base\<lparr>axis := i\<rparr>) (enumerate 0 bases0);
                last_base = bs ! last (last axs);
                d = (case dtype0 of
                       None \<Rightarrow> if cls last_base = C2CBasis then ComplexFloat else RealFloat
                     | Some d0 \<Rightarrow> d0)
            in if d = OtherDtype then Inl AssertionError
               else
                 bind_err
                   (if backward_from_pencil
                    then configure_backwards (base_plan ext) bs axs d
                           (map (\<lambda>base. base_shape base True) bs)
                    else if cls last_base = C2CBasis \<and> d \<noteq> ComplexFloat then Inl AssertionError
                    else if cls last_base = R2CBasis \<and> d \<noteq> RealFloat then Inl AssertionError
                    else bind_err (make_subcomm comm (length bs) (last axs) slab)
                      (\<lambda>procs.
                         let collapse = (collapse_fourier \<and>
                               \<not> list_ex (\<lambda>base. \<bar>padding_factor base - 1\<bar> > 1 / 1000000) bs)
                         in configure_forward (base_plan ext) bs
                              (if collapse then collapse_groups bs procs axs else axs)
                              d (map (\<lambda>base. base_shape base False) bs)))
                   (\<lambda>P. let T = \<lparr>bases = bs, axes = p_axes P, shape = pfft_shape ext\<rparr>
                        in bind_err (set_bcs_loop (forward_env ext) T (base_bc ext)
                                       (enumerate 0 bs))
                             (\<lambda>bvs. Inr \<lparr>orch_pipeline = P, orch_space = T,
                                           orch_bcs = bvs\<rparr>)))"

section \<open>Notions used in the results\<close>




text \<open>
  The number of groups that the forward pipeline transforms before it reaches the group
  that ends in the axis of a base: the groups after it in \<open>T.axes\<close>, since the last group
  is transformed first.
\<close>

definition groups_after :: "tps \<Rightarrow> basis \<Rightarrow> nat" where
  "groups_after T this_base =
     length (takeWhile (\<lambda>g. bases T ! last g \<noteq> this_base) (rev (axes T)))"

text \<open>The \<open>M\<close> trailing planes of an array, as a snapshot holds them.\<close>

definition planes :: "'a tensor_env \<Rightarrow> nat \<Rightarrow> 'a \<Rightarrow> 'a bcvalue list" where
  "planes env M a = map (\<lambda>i. NdArray (get_plane env (- int M + int i) a)) [0..<M]"

text \<open>
  The first \<open>n\<close> stages of the forward pipeline, each followed by its transfer.
\<close>

definition drive_events :: "nat \<Rightarrow> event list" where
  "drive_events n = concat (map (\<lambda>i. [Stage i, Transfer i]) [0..<n])"

text \<open>
  The events of the whole forward pipeline: every transfer with the stage before it,
  then the last stage.
\<close>

definition forward_events :: "'a tensor_env \<Rightarrow> event list" where
  "forward_events env =
     drive_events (length (fwd_transfer env)) @ [Stage (length (fwd_xfftn env) - 1)]"

text \<open>
  An array driven through the first \<open>n\<close> stages and transfers, and through the whole
  forward pipeline.
\<close>

definition drive_array :: "'a tensor_env \<Rightarrow> nat \<Rightarrow> 'a \<Rightarrow> 'a" where
  "drive_array env n b = foldl (\<lambda>a i. (fwd_transfer env ! i) ((fwd_xfftn env ! i) a)) b [0..<n]"

definition forward_array :: "'a tensor_env \<Rightarrow> 'a \<Rightarrow> 'a" where
  "forward_array env b = last (fwd_xfftn env) (drive_array env (length (fwd_transfer env)) b)"

text \<open>
  The array of boundary values at a given time: on the process that owns the end of the
  axis, slot \<open>j\<close> of \<open>M\<close> is written into the plane \<open>j - M\<close>, an expression with its value
  on the mesh after the time has been put in; every other plane is zero.
\<close>

definition slot_value :: "'a tensor_env \<Rightarrow> rat \<Rightarrow> nat \<Rightarrow> 'a bcvalue \<Rightarrow> 'a bcvalue" where
  "slot_value env time j v =
     (case v of
        Expr e \<Rightarrow> lambdify_on_mesh env
                    (if ''t'' \<in> fst ` set (free_symbols e) then subs e plain_t time else e) j
      | _ \<Rightarrow> v)"

definition boundary_array :: "'a tensor_env \<Rightarrow> basis \<Rightarrow> nat \<Rightarrow> rat \<Rightarrow> 'a bcvalue list \<Rightarrow> 'a" where
  "boundary_array env this_base ax time vals =
     (if owns_boundary env this_base ax
      then foldl (\<lambda>b (j, v). set_plane env (int j - int (length vals)) (slot_value env time j v) b)
             (new_Array env) (enumerate 0 vals)
      else new_Array env)"


section \<open>Concrete spaces\<close>

text \<open>
  A complex Fourier base, a real-to-complex Fourier base (spectral extent \<open>N div 2 + 1\<close>),
  a Chebyshev base, and a Chebyshev base with non-homogeneous Dirichlet conditions, of
  \<open>n\<close> quadrature points at position \<open>a\<close>.
\<close>

definition c2c_base :: "nat \<Rightarrow> nat \<Rightarrow> basis" where
  "c2c_base n a = \<lparr>family = ''fourier'', cls = C2CBasis, N = n, padding_factor = 1, axis = a,
     base_shape = (\<lambda>forward_output. n), base_dim = n, has_nonhomogeneous_bcs = False\<rparr>"

definition r2c_base :: "nat \<Rightarrow> nat \<Rightarrow> basis" where
  "r2c_base n a = \<lparr>family = ''fourier'', cls = R2CBasis, N = n, padding_factor = 1, axis = a,
     base_shape = (\<lambda>forward_output. if forward_output then n div 2 + 1 else n),
     base_dim = n div 2 + 1, has_nonhomogeneous_bcs = False\<rparr>"

definition chebyshev_base :: "nat \<Rightarrow> nat \<Rightarrow> basis" where
  "chebyshev_base n a = \<lparr>family = ''chebyshev'', cls = OtherBasis, N = n, padding_factor = 1,
     axis = a, base_shape = (\<lambda>forward_output. n), base_dim = n,
     has_nonhomogeneous_bcs = False\<rparr>"

definition dirichlet_base :: "nat \<Rightarrow> nat \<Rightarrow> basis" where
  "dirichlet_base n a = \<lparr>family = ''chebyshev'', cls = OtherBasis, N = n, padding_factor = 1,
     axis = a, base_shape = (\<lambda>forward_output. n), base_dim = n - 2,
     has_nonhomogeneous_bcs = True\<rparr>"

text \<open>
  \<open>TensorProductSpace(comm, (C2CBasis(8), R2CBasis(8)))\<close> on one process, and the block
  of rank 0 when \<open>comm\<close> has two processes: the physical array is split along axis 0,
  the spectral array (global shape 8 by 5) along axis 1.
\<close>

definition T_one_proc :: tps where
  "T_one_proc = \<lparr>bases = [c2c_base 8 0, r2c_base 8 1], axes = [[0], [1]],
     shape = (\<lambda>forward_output. if forward_output then [8, 5] else [8, 8])\<rparr>"

definition T_two_procs :: tps where
  "T_two_procs = \<lparr>bases = [c2c_base 8 0, r2c_base 8 1], axes = [[0], [1]],
     shape = (\<lambda>forward_output. if forward_output then [8, 3] else [4, 8])\<rparr>"

text \<open>Two Chebyshev axes on one process, as in the Stokes demo.\<close>

definition TD_serial :: tps where
  "TD_serial = \<lparr>bases = [chebyshev_base 40 0, chebyshev_base 40 1], axes = [[0], [1]],
     shape = (\<lambda>forward_output. [40, 40])\<rparr>"

text \<open>
  One process, and the stage lists of
  \<open>TensorProductSpace(comm, (C2CBasis(8), C2CBasis(8), R2CBasis(8)))\<close> on it.
\<close>

definition serial_comm :: "nat \<Rightarrow> comm_arg" where
  "serial_comm nd = MPIComm 1 (\<lambda>dims. replicate nd 1)"


subsection \<open>A small orchestrator with exact arithmetic\<close>

text \<open>
  A Dirichlet axis of three points (axis 0, two boundary slots) and a real-to-complex
  Fourier axis of two points (axis 1) on one process. A local array is the list of its
  three planes along axis 0, each a list of two rationals. The Fourier stage is the
  normalised real transform of length two; the stage of the Dirichlet axis subtracts the
  mean of the two boundary planes from the interior plane; the transfer moves nothing on
  one process. The mesh has the points \<open>-1, 0, 1\<close> along \<open>x\<close> and \<open>0, 1/2\<close> along \<open>y\<close>.
\<close>

type_synonym toy_array = "rat list list"

definition toy_set_plane :: "int \<Rightarrow> toy_array bcvalue \<Rightarrow> toy_array \<Rightarrow> toy_array" where
  "toy_set_plane k v b =
     (let i = nat (int (length b) + k)
      in b[i := (case v of
                   Number c \<Rightarrow> map (\<lambda>_. c) (b ! i)
                 | NdArray a \<Rightarrow> concat a
                 | Expr e \<Rightarrow> b ! i)])"

definition toy_get_plane :: "int \<Rightarrow> toy_array \<Rightarrow> toy_array" where
  "toy_get_plane k b = [b ! nat (int (length b) + k)]"

definition toy_mesh :: "nat \<Rightarrow> nat \<Rightarrow> symbol \<Rightarrow> rat" where
  "toy_mesh j m v =
     (if fst v = ''x'' then [-1, 0, 1] ! j else if fst v = ''y'' then [0, 1 / 2] ! m else 0)"

definition toy_lambdify :: "expr \<Rightarrow> nat \<Rightarrow> toy_array bcvalue" where
  "toy_lambdify e j =
     (if free_symbols e = [] then Number (eval_expr (\<lambda>_. 0) e)
      else NdArray [map (\<lambda>m. eval_expr (toy_mesh j m) e) [0, 1]])"

definition toy_rfft :: "toy_array \<Rightarrow> toy_array" where
  "toy_rfft b = map (\<lambda>p. [(p ! 0 + p ! 1) / 2, (p ! 0 - p ! 1) / 2]) b"

definition toy_dirichlet :: "toy_array \<Rightarrow> toy_array" where
  "toy_dirichlet b =
     [map (\<lambda>m. b ! 0 ! m - (b ! 1 ! m + b ! 2 ! m) / 2) [0, 1], b ! 1, b ! 2]"

definition toy_env :: "(toy_array \<Rightarrow> toy_array) list \<Rightarrow> toy_array tensor_env" where
  "toy_env stages = \<lparr>fwd_xfftn = stages,
     fwd_transfer = replicate (length stages - 1) (\<lambda>a. a),
     new_Array = [[0, 0], [0, 0], [0, 0]],
     local_slice_stop = (\<lambda>ax. 3),
     set_plane = toy_set_plane, get_plane = toy_get_plane,
     lambdify_on_mesh = toy_lambdify,
     np_all_zero = list_all (list_all (\<lambda>v. v = 0))\<rparr>"

definition T2 :: tps where
  "T2 = \<lparr>bases = [dirichlet_base 3 0, r2c_base 2 1], axes = [[0], [1]],
     shape = (\<lambda>forward_output. [3, 2])\<rparr>"

definition env2 :: "toy_array tensor_env" where
  "env2 = toy_env [toy_rfft, toy_dirichlet]"

text \<open>
  Four axes with the Dirichlet axis first: three groups come after it. The stages are
  never reached, whatever they are.
\<close>

definition T4 :: tps where
  "T4 = \<lparr>bases = [dirichlet_base 3 0, c2c_base 2 1, c2c_base 2 2, r2c_base 2 3],
     axes = [[0], [1], [2], [3]], shape = (\<lambda>forward_output. [3, 2, 2, 2])\<rparr>"

definition env4 :: "toy_array tensor_env" where
  "env4 = toy_env [\<lambda>a. a, \<lambda>a. a, \<lambda>a. a, \<lambda>a. a]"

text \<open>
  The expression \<open>y*(y + 1) - y**2 - y\<close>, with the real symbol \<open>y\<close> of the module: zero
  at every point, and not a number.
\<close>

definition sym_y :: symbol where
  "sym_y = (''y'', [''real''])"

definition zero_expr :: expr where
  "zero_expr = Add (Mul (Sym sym_y) (Add (Sym sym_y) (Const 1)))
                 (Add (Mul (Const (-1)) (Power (Sym sym_y) 2)) (Mul (Const (-1)) (Sym sym_y)))"

text \<open>
  A \<open>BoundaryValues\<close> object of the Dirichlet base as its constructor leaves it, and one
  that \<open>set_tensor_bcs\<close> has attached to the small orchestrator.
\<close>

definition bv_new :: "toy_array bcvalue list \<Rightarrow> toy_array boundary_values" where
  "bv_new vals = \<lparr>bv_base = dirichlet_base 3 0, tensorproductspace = None, bc = vals,
      bcs = vals, bcs_final = vals, bv_axis = 0, bc_time = 0,
      number_of_bases_after_this = None\<rparr>"

definition bv_attached :: "toy_array bcvalue list \<Rightarrow> toy_array bcvalue list
    \<Rightarrow> toy_array bcvalue list \<Rightarrow> toy_array boundary_values" where
  "bv_attached vals snap snap_final = \<lparr>bv_base = dirichlet_base 3 0,
      tensorproductspace = Some (Tensor T2 env2), bc = vals,
      bcs = snap, bcs_final = snap_final, bv_axis = 0, bc_time = 0,
      number_of_bases_after_this = Some 1\<rparr>"


text \<open>
  The same with a time symbol that carries an assumption, \<open>sp.symbols('t', real=True)\<close>.
\<close>

definition bv_time_real :: "toy_array boundary_values" where
  "bv_time_real = bv_attached [Expr (Mul (Sym (''t'', [''real''])) (Sym sym_y)), Number 0]
     [NdArray [[0, 0]], NdArray [[0, 0]]] [NdArray [[0, 0]], NdArray [[0, 0]]]"

text \<open>
  The collaborators of an orchestrator on one process whose bases follow the dtype rule:
  no base of it has boundary values to set, and \<open>shp\<close> is its local shape.
\<close>

definition ext_serial :: "(bool \<Rightarrow> nat list) \<Rightarrow> toy_array externals" where
  "ext_serial shp = \<lparr>base_plan = spec_plan, forward_env = toy_env [], pfft_shape = shp,
     base_bc = (\<lambda>i. bv_new [])\<rparr>"

text \<open>
  The collaborators of the four-axis orchestrator with the Dirichlet axis first and the
  boundary values 1 and 0.
\<close>

definition ext4 :: "toy_array externals" where
  "ext4 = \<lparr>base_plan = spec_plan, forward_env = env4, pfft_shape = (\<lambda>forward_output. [3, 2, 2, 2]),
     base_bc = (\<lambda>i. bv_new [Number 1, Number 0])\<rparr>"

section \<open>Results\<close>

subsection \<open>Error propagation\<close>


lemma bind_err_Inr_iff: "bind_err m f = Inr y \<longleftrightarrow> (\<exists>x. m = Inr x \<and> f x = Inr y)"
  by (cases m) (simp_all add: bind_err_def)

subsection \<open>Composite spaces and queries\<close>

lemma recursiveflatten_leaves: "recursiveflatten sp s = s @ leaves sp"
proof (induction sp s rule: recursiveflatten.induct)
  case (1 l s)
  show ?case by simp
next
  case (2 spaces s)
  have "set xs \<subseteq> set spaces \<Longrightarrow>
        fold (\<lambda>i s'. recursiveflatten i s') xs acc = acc @ concat (map leaves xs)" for xs acc
  proof (induction xs arbitrary: acc)
    case Nil
    show ?case by simp
  next
    case (Cons x xs)
    from Cons.prems have "x \<in> set spaces" by simp
    then have "recursiveflatten x acc = acc @ leaves x" by (rule "2.IH")
    moreover from Cons.prems have "set xs \<subseteq> set spaces" by simp
    ultimately show ?case using Cons.IH by simp
  qed
  then show ?case by simp
qed

lemma foldl_plus_sum_list: "foldl (\<lambda>s x. s + f x) a xs = (a::int64) + sum_list (map f xs)"
  by (induction xs arbitrary: a) (simp_all add: add.assoc)

text \<open>
  C8. The \<open>dim()\<close> of a composite space, nested to any depth, is the sum of \<open>dim()\<close>
  over the leaves taken depth first and left to right. The sum is the program's
  (\<open>int64\<close>) sum.
\<close>

theorem C8_mixed_dim_sum_leaves:
  "mixed_dim (Mixed spaces) = sum_list (map tps_dim (leaves (Mixed spaces)))"
  unfolding mixed_dim_def flatten_def recursiveflatten_leaves foldl_plus_sum_list
  by simp

text \<open>
  C10. When more than one axis is not of the Fourier family, a request for the
  low-memory cython strategy (method 0) or the fast cython strategy (method 1) is
  served by the python strategy, and nothing is reported to the caller.
\<close>

theorem C10_eval_falls_back_to_python:
  assumes "length (get_nonperiodic_axes T) > 1"
    and "method = 0 \<or> method = 1"
  shows "eval_strategy T method = Eval_python"
  using assms by (simp add: eval_strategy_def)

text \<open>
  C10 on the space of the Stokes demo: two Chebyshev axes, method 0 requested.
\<close>

theorem C10_eval_falls_back_to_python_witness:
  "length (get_nonperiodic_axes TD_serial) > 1 \<and> eval_strategy TD_serial 0 = Eval_python"
proof -
  have h: "length (get_nonperiodic_axes TD_serial) > 1"
    by (simp add: get_nonperiodic_axes_def TD_serial_def chebyshev_base_def)
  from C10_eval_falls_back_to_python [OF h, of 0] h show ?thesis by simp
qed

text \<open>
  C7 as stated fails: \<open>size\<close> multiplies the entries of \<open>shape\<close>, the shape of the
  process-local block, not those of \<open>global_shape\<close>. On two processes an 8 by 8 space
  has the local physical block 4 by 8.
\<close>

theorem C7_size_global_counterexample:
  "size_tps T_two_procs False = 32 \<and> np_prod (global_shape T_two_procs False) = 64 \<and>
   size_tps T_two_procs False \<noteq> np_prod (global_shape T_two_procs False)"
  by (simp add: size_tps_def np_prod_def global_shape_def T_two_procs_def
      c2c_base_def r2c_base_def)

text \<open>
  C7, amended. \<open>size(forward_output)\<close> is the product of the per-axis extents of the
  process-local shape \<open>shape(forward_output)\<close>; it is the product of the per-axis
  global extents whenever the local shape is the global shape, as it is on one process.
\<close>

theorem C7_size_local_product:
  "size_tps T forward_output = np_prod (shape T forward_output) \<and>
   (shape T forward_output = global_shape T forward_output \<longrightarrow>
      size_tps T forward_output = np_prod (global_shape T forward_output))"
  by (simp add: size_tps_def)

text \<open>
  C7, amended, on one process: the spectral array of the 8 by 8 space has 8 times 5
  entries.
\<close>

theorem C7_size_local_product_witness:
  "shape T_one_proc True = global_shape T_one_proc True \<and>
   size_tps T_one_proc True = np_prod (global_shape T_one_proc True) \<and>
   size_tps T_one_proc True = 40"
proof -
  have h: "shape T_one_proc True = global_shape T_one_proc True"
    by (simp add: global_shape_def T_one_proc_def c2c_base_def r2c_base_def)
  from C7_size_local_product [of T_one_proc True] h
  have "size_tps T_one_proc True = np_prod (global_shape T_one_proc True)" by simp
  moreover have "np_prod (global_shape T_one_proc True) = 40"
    by (simp add: np_prod_def global_shape_def T_one_proc_def c2c_base_def r2c_base_def)
  ultimately show ?thesis using h by simp
qed

subsection \<open>Validation of the axes\<close>





lemma construct_needs_init_axes:
  assumes "construct ext comm bs axes0 dtype0 slab collapse_fourier backward_from_pencil = Inr R"
  shows "\<exists>axs. init_axes (map (\<lambda>base. base_shape base False) bs) axes0 = Inr axs"
  using assms by (cases "init_axes (map (\<lambda>base. base_shape base False) bs) axes0")
    (simp_all add: construct_def bind_err_def)


text \<open>
  The same holds for an axis that occurs in two groups, and the constructor goes on to
  build a pipeline of one stage from \<open>axes=(1,)\<close>.
\<close>

lemma repeated_axis_accepted:
  "init_axes [8, 8, 8] (AxesSeq [AxInt 0, AxInt 1, AxInt 0]) = Inr [[0], [1], [0]] \<and>
   \<not> is_axis_permutation 3 [[0], [1], [0]]"
  by code_simp

lemma missing_axis_pipeline:
  "map_sum id (\<lambda>R. (p_axes (orch_pipeline R), map stage_axes (xfftn (orch_pipeline R)),
                     transfer (orch_pipeline R)))
     (construct (ext_serial (\<lambda>forward_output. if forward_output then [8, 5] else [8, 8]))
        (serial_comm 2) [c2c_base 8 0, r2c_base 8 1] (AxesSeq [AxInt 1]) None False False False)
   = Inr ([[1]], [[1]], [])"
  by code_simp



subsection \<open>Element types along the pipeline\<close>



















subsection \<open>Collapsing of Fourier axes\<close>

text \<open>
  The comment above the loop says that every group is a single axis at that point. When
  that is so, collapsing keeps the axes in their order and does not add a group: the
  merged orchestrator transforms the same axes with at most as many transfers.
\<close>

lemma collapse_fold_invariant:
  assumes "fold (collapse_step F) xs (groups, f0) = (groups', f')"
    and "groups \<noteq> []" and "\<forall>x\<in>set xs. length x = 1"
  shows "groups' \<noteq> [] \<and> length groups' \<le> length groups + length xs \<and>
         concat groups' = concat (rev xs) @ concat groups"
  using assms
proof (induction xs arbitrary: groups f0)
  case Nil
  then show ?case by simp
next
  case (Cons x xs)
  obtain g1 f1 where step: "collapse_step F x (groups, f0) = (g1, f1)"
    by (cases "collapse_step F x (groups, f0)")
  from Cons.prems(3) have "length x = 1" by simp
  then have x: "x = [last x]" by (cases x) simp_all
  from Cons.prems(2) obtain h t where g: "groups = h # t" by (cases groups) simp_all
  from step g have g1: "g1 \<noteq> []" "length g1 \<le> Suc (length groups)"
    "concat g1 = last x # concat groups"
    using x by (auto simp: collapse_step_def split: if_splits)
  from Cons.prems(1) step have "fold (collapse_step F) xs (g1, f1) = (groups', f')" by simp
  from Cons.IH [OF this g1(1)] Cons.prems(3)
  have "groups' \<noteq> []" "length groups' \<le> length g1 + length xs"
    "concat groups' = concat (rev xs) @ concat g1" by simp_all
  moreover have "x @ concat groups = last x # concat groups"
    using x by (metis append_Cons append_Nil)
  ultimately show ?case using g1 by simp
qed

lemma collapse_groups_keeps_order:
  assumes "axs \<noteq> []" and "\<forall>x\<in>set axs. length x = 1"
  shows "concat (collapse_groups bs procs axs) = concat axs \<and>
         length (collapse_groups bs procs axs) \<le> length axs"
proof -
  define F where "F = (\<lambda>ax. family (bs ! ax) = ''fourier'' \<and> procs ! ax = 1)"
  obtain groups' f' where
    fd: "fold (collapse_step F) (rev (butlast axs)) ([last axs], F (last (last axs))) = (groups', f')"
    by (cases "fold (collapse_step F) (rev (butlast axs)) ([last axs], F (last (last axs)))")
  from assms(2) have "\<forall>x\<in>set (rev (butlast axs)). length x = 1"
    by (auto dest: in_set_butlastD)
  from collapse_fold_invariant [OF fd _ this]
  have "length groups' \<le> 1 + length (butlast axs)"
    and "concat groups' = concat (butlast axs) @ last axs" by simp_all
  moreover from assms(1) have "concat (butlast axs) @ last axs = concat axs"
    by (metis append_butlast_last_id concat_append concat.simps append_Nil2)
  moreover from assms(1) have "1 + length (butlast axs) = length axs" by simp
  moreover have "collapse_groups bs procs axs = groups'"
    using fd by (simp add: collapse_groups_def F_def)
  ultimately show ?thesis by simp
qed


text \<open>
  C9 fails on the code when a group has more than one axis. The validation accepts
  \<open>axes=((0, 1), (2, 3))\<close>; on four Fourier bases on one process, the last one
  real-to-complex, the loop merges the two groups by inserting only the last axis of the
  group \<open>(0, 1)\<close>. Without \<open>collapse_fourier\<close> the pipeline has the stages of the groups
  \<open>(2, 3)\<close> and \<open>(0, 1)\<close> and one transfer; with it the pipeline has the single stage of
  the group \<open>(1, 2, 3)\<close>, and axis 0 is not transformed at all.
\<close>

theorem C9_collapse_drops_axis:
  "collapse_groups [c2c_base 8 0, c2c_base 8 1, c2c_base 8 2, r2c_base 8 3] [1, 1, 1, 1]
     [[0, 1], [2, 3]] = [[1, 2, 3]] \<and>
   map_sum id (\<lambda>R. (axes (orch_space R), map stage_axes (forward (orch_pipeline R)),
                     length (transfer (orch_pipeline R))))
     (construct (ext_serial (\<lambda>forward_output. if forward_output then [8, 8, 8, 5] else [8, 8, 8, 8]))
        (serial_comm 4) [c2c_base 8 0, c2c_base 8 1, c2c_base 8 2, r2c_base 8 3]
        (AxesSeq [AxSeq [0, 1], AxSeq [2, 3]]) None False False False)
     = Inr ([[0, 1], [2, 3]], [[2, 3], [0, 1]], 1) \<and>
   map_sum id (\<lambda>R. (axes (orch_space R), map stage_axes (forward (orch_pipeline R)),
                     length (transfer (orch_pipeline R))))
     (construct (ext_serial (\<lambda>forward_output. if forward_output then [8, 8, 8, 5] else [8, 8, 8, 8]))
        (serial_comm 4) [c2c_base 8 0, c2c_base 8 1, c2c_base 8 2, r2c_base 8 3]
        (AxesSeq [AxSeq [0, 1], AxSeq [2, 3]]) None False True False)
     = Inr ([[1, 2, 3]], [[1, 2, 3]], 0)"
  by code_simp

subsection \<open>The loops of the boundary splicer\<close>




lemma count_bases_after_append:
  "count_bases_after bs this_base (gs @ hs) st
     = bind_err (count_bases_after bs this_base gs st) (count_bases_after bs this_base hs)"
proof (induction gs arbitrary: st)
  case Nil
  show ?case by (simp add: bind_err_def)
next
  case (Cons g gs)
  obtain ax n where st: "st = (ax, n)" by (cases st)
  show ?case unfolding st by (simp add: Cons.IH Let_def bind_err_def)
qed

lemma count_bases_after_before:
  "\<forall>h\<in>set hs. h \<noteq> [] \<and> last h < length bs \<and> bs ! last h \<noteq> this_base \<Longrightarrow>
     count_bases_after bs this_base hs (None, n) = Inr (None, n + length hs)"
  by (induction hs arbitrary: n) (simp_all add: Let_def)

lemma count_bases_after_found:
  "list_all (\<lambda>h. h \<noteq> [] \<and> last h < length bs) hs \<Longrightarrow>
     count_bases_after bs this_base hs (Some (axis this_base), n)
       = Inr (Some (axis this_base), n)"
  by (induction hs) (simp_all add: Let_def)

text \<open>
  The number counted by \<open>set_tensor_bcs\<close> is the number of groups after the group
  that ends in the axis of the base.
\<close>

lemma count_bases_after_groups:
  assumes "\<forall>h\<in>set post. h \<noteq> [] \<and> last h < length bs \<and> bs ! last h \<noteq> this_base"
    and "g \<noteq> []" and "last g < length bs" and "bs ! last g = this_base"
    and "list_all (\<lambda>h. h \<noteq> [] \<and> last h < length bs) pre"
  shows "count_bases_after bs this_base (rev (pre @ g # post)) (None, 0)
           = Inr (Some (axis this_base), length post)"
proof -
  have r: "rev (pre @ g # post) = rev post @ g # rev pre" by simp
  from assms(1) have "\<forall>h\<in>set (rev post). h \<noteq> [] \<and> last h < length bs \<and> bs ! last h \<noteq> this_base"
    by simp
  from count_bases_after_before [OF this, of 0]
  have a: "count_bases_after bs this_base (rev post) (None, 0) = Inr (None, length post)"
    by simp
  from assms(5) have "list_all (\<lambda>h. h \<noteq> [] \<and> last h < length bs) (rev pre)" by simp
  from count_bases_after_found [OF this]
  have b: "count_bases_after bs this_base (rev pre) (Some (axis this_base), length post)
      = Inr (Some (axis this_base), length post)" .
  show ?thesis unfolding r count_bases_after_append a
    using assms(2,3,4) b by (simp add: bind_err_def Let_def)
qed


lemma store_planes_result:
  "i + k \<le> length xs \<Longrightarrow>
     store_planes env M i k (Some bh) xs =
       Inr (take i xs @ map (\<lambda>j. NdArray (get_plane env (- int M + int j) bh)) [i..<i + k]
              @ drop (i + k) xs)"
proof (induction k arbitrary: i xs)
  case 0
  show ?case by simp
next
  case (Suc k)
  define f where "f = (\<lambda>j. NdArray (get_plane env (- int M + int j) bh))"
  from Suc.prems have i: "i < length xs" by simp
  from Suc.prems have len: "Suc i + k \<le> length (xs[i := f i])" by simp
  have a: "store_planes env M i (Suc k) (Some bh) xs
      = store_planes env M (Suc i) k (Some bh) (xs[i := f i])"
    using i by (simp add: list_set_def bind_err_def f_def)
  have b: "store_planes env M (Suc i) k (Some bh) (xs[i := f i])
      = Inr (take (Suc i) (xs[i := f i]) @ map f [Suc i..<Suc i + k]
              @ drop (Suc i + k) (xs[i := f i]))"
    using Suc.IH [OF len [unfolded f_def]] unfolding f_def .
  have c: "take (Suc i) (xs[i := f i]) = take i xs @ [f i]"
    using i by (simp add: take_Suc_conv_app_nth)
  have d: "drop (Suc i + k) (xs[i := f i]) = drop (i + Suc k) xs"
    by simp
  have e: "[i..<i + Suc k] = i # [Suc i..<Suc i + k]"
    using upt_conv_Cons [of i "i + Suc k"] by simp
  have "store_planes env M i (Suc k) (Some bh) xs
      = Inr (take i xs @ map f [i..<i + Suc k] @ drop (i + Suc k) xs)"
    by (simp only: a b c d e list.map append.simps append_assoc)
  then show ?case unfolding f_def .
qed

lemma store_planes_all:
  "length xs = M \<Longrightarrow> store_planes env M 0 M (Some bh) xs = Inr (planes env M bh)"
  using store_planes_result [of 0 M xs env M bh] by (simp add: planes_def)

lemma store_planes_unbound:
  "0 < k \<Longrightarrow> store_planes env M i k None xs = Inl UnboundLocalError"
  by (cases k) simp_all



text \<open>
  The number counted by the loop is the number of groups in front of the first group,
  in the reversed order, that ends in the axis of the base.
\<close>

lemma count_bases_after_value:
  "count_bases_after bs this_base gs (ax, n) = Inr (ax', n') \<Longrightarrow>
     n' = n + (if ax = None then length (takeWhile (\<lambda>g. bs ! last g \<noteq> this_base) gs) else 0)"
proof (induction gs arbitrary: ax n)
  case Nil
  then show ?case by simp
next
  case (Cons g gs)
  from Cons.prems have g: "g \<noteq> []" "last g < length bs"
    by (auto split: if_splits)
  show ?case
  proof (cases "bs ! last g = this_base")
    case True
    with Cons.prems g have
      "count_bases_after bs this_base gs (Some (axis (bs ! last g)), n) = Inr (ax', n')"
      by (simp add: Let_def)
    from Cons.IH [OF this] True show ?thesis by simp
  next
    case False
    show ?thesis
    proof (cases "ax = None")
      case True
      with Cons.prems g False have
        "count_bases_after bs this_base gs (None, n + 1) = Inr (ax', n')"
        by (simp add: Let_def)
      from Cons.IH [OF this] True False show ?thesis by simp
    next
      case ax: False
      with Cons.prems g False have
        "count_bases_after bs this_base gs (ax, n) = Inr (ax', n')"
        by (simp add: Let_def)
      from Cons.IH [OF this] ax show ?thesis by simp
    qed
  qed
qed

lemma count_bases_after_groups_after:
  "count_bases_after (bases T) this_base (rev (axes T)) (None, 0) = Inr (ax, n) \<Longrightarrow>
     n = groups_after T this_base"
  using count_bases_after_value [of "bases T" this_base "rev (axes T)" None 0 ax n]
  by (simp add: groups_after_def)

text \<open>
  The loop over the slots writes the boundary array.
\<close>

lemma fill_boundary_result:
  "fill_boundary env T this_base ax time M j vals b = Inr b' \<Longrightarrow>
     b' = (if owns_boundary env this_base ax
           then foldl (\<lambda>b (k, v). set_plane env (int k - int M) (slot_value env time k v) b) b
                  (enumerate j vals)
           else b)"
proof (induction vals arbitrary: j b)
  case Nil
  then show ?case by simp
next
  case (Cons v vals)
  have eq: "- int M + int j = int j - int M" by simp
  show ?case
  proof (cases v)
    case (Number c)
    with Cons.prems have "fill_boundary env T this_base ax time M (Suc j) vals
        (if owns_boundary env this_base ax then set_plane env (- int M + int j) (Number c) b else b)
        = Inr b'" by simp
    from Cons.IH [OF this] Number show ?thesis by (simp add: slot_value_def eq)
  next
    case (NdArray a)
    with Cons.prems have "fill_boundary env T this_base ax time M (Suc j) vals
        (if owns_boundary env this_base ax then set_plane env (- int M + int j) (NdArray a) b else b)
        = Inr b'" by simp
    from Cons.IH [OF this] NdArray show ?thesis by (simp add: slot_value_def eq)
  next
    case (Expr e)
    define bci where
      "bci = (if ''t'' \<in> set (map fst (free_symbols e)) then subs e plain_t time else e)"
    from Cons.prems Expr have "fill_boundary env T this_base ax time M (Suc j) vals
        (if owns_boundary env this_base ax
         then set_plane env (- int M + int j) (lambdify_on_mesh env bci j) b else b)
        = Inr b'"
      by (auto simp: Let_def bind_err_Inr_iff bci_def split: if_splits)
    from Cons.IH [OF this] Expr show ?thesis by (simp add: slot_value_def eq bci_def)
  qed
qed

lemma fill_boundary_array:
  "fill_boundary env T this_base ax time (length vals) 0 vals (new_Array env) = Inr b \<Longrightarrow>
     b = boundary_array env this_base ax time vals"
  by (drule fill_boundary_result) (simp add: boundary_array_def)

text \<open>
  With at most two groups after the axis the intermediate array is the boundary array
  driven through that many stages, each followed by its transfer; with more, no stage
  runs and \<open>b_hat\<close> stays unassigned.
\<close>

lemma intermediate_result:
  assumes "intermediate env n b = Inr (r, ev)"
  shows "(n \<le> 2 \<longrightarrow> r = Some (drive_array env n b) \<and> ev = drive_events n) \<and>
         (2 < n \<longrightarrow> r = None \<and> ev = [])"
proof -
  have d: "drive_events 0 = []" "drive_events (Suc 0) = [Stage 0, Transfer 0]"
    "drive_events 2 = [Stage 0, Transfer 0, Stage 1, Transfer 1]"
    by (simp_all add: drive_events_def upt_rec)
  have a: "drive_array env 0 b = b"
    "drive_array env (Suc 0) b = (fwd_transfer env ! 0) ((fwd_xfftn env ! 0) b)"
    "drive_array env 2 b = (fwd_transfer env ! 1) ((fwd_xfftn env ! 1)
        ((fwd_transfer env ! 0) ((fwd_xfftn env ! 0) b)))"
    by (simp_all add: drive_array_def upt_rec)
  consider "n = 0" | "n = 1" | "n = 2" | "2 < n" by linarith
  then show ?thesis
  proof cases
    case 1
    with assms show ?thesis by (auto simp: intermediate_def d a)
  next
    case 2
    with assms show ?thesis
      by (auto simp: intermediate_def d a bind_err_def exec_stage_def exec_transfer_def
          split: sum.splits if_splits)
  next
    case 3
    with assms show ?thesis
      by (auto simp: intermediate_def d a bind_err_def exec_stage_def exec_transfer_def
          split: sum.splits if_splits)
  next
    case 4
    with assms show ?thesis by (auto simp: intermediate_def)
  qed
qed

text \<open>
  The last loop drives its array through every stage and transfer of the forward
  pipeline.
\<close>

lemma forward_loop_result:
  "forward_loop env is (a, ev) = Inr (a', ev') \<Longrightarrow>
     a' = foldl (\<lambda>a i. (fwd_transfer env ! i) ((fwd_xfftn env ! i) a)) a is \<and>
     ev' = ev @ concat (map (\<lambda>i. [Stage i, Transfer i]) is)"
proof (induction "is" arbitrary: a ev)
  case Nil
  then show ?case by simp
next
  case (Cons i "is")
  from Cons.prems have
    "forward_loop env is ((fwd_transfer env ! i) ((fwd_xfftn env ! i) a),
        (ev @ [Stage i]) @ [Transfer i]) = Inr (a', ev')"
    by (auto simp: bind_err_Inr_iff exec_stage_def exec_transfer_def split: if_splits)
  from Cons.IH [OF this] show ?case by simp
qed

lemma final_result:
  assumes "final env b ev = Inr (b_fin, ev')"
  shows "b_fin = forward_array env b \<and> ev' = ev @ forward_events env"
proof -
  from assms obtain a ev1 where
    loop: "forward_loop env [0..<length (fwd_transfer env)] (b, ev) = Inr (a, ev1)"
    and ne: "fwd_xfftn env \<noteq> []"
    and last: "exec_stage env (length (fwd_xfftn env) - 1) (a, ev1) = Inr (b_fin, ev')"
    by (auto simp: final_def bind_err_Inr_iff split: if_splits)
  from forward_loop_result [OF loop] have
    a: "a = drive_array env (length (fwd_transfer env)) b"
    and ev1: "ev1 = ev @ drive_events (length (fwd_transfer env))"
    by (simp_all add: drive_array_def drive_events_def)
  from last have "b_fin = (fwd_xfftn env ! (length (fwd_xfftn env) - 1)) a"
    and "ev' = ev1 @ [Stage (length (fwd_xfftn env) - 1)]"
    by (auto simp: exec_stage_def split: if_splits)
  with a ev1 ne show ?thesis
    by (simp add: forward_array_def forward_events_def last_conv_nth)
qed

text \<open>
  A successful run of \<open>set_tensor_bcs\<close> on a non-zero specification: both snapshots
  are the trailing planes of the boundary array, driven through as many stages and
  transfers as there are groups after the axis, and through the whole forward pipeline.
\<close>

lemma set_tensor_bcs_pipeline:
  assumes flag: "has_nonhomogeneous_bcs this_base"
    and nonhom: "bv_has_nonhomogeneous_bcs (np_all_zero env) (bc self)"
    and len: "length (bcs self) = length (bc self)" "length (bcs_final self) = length (bc self)"
    and res: "set_tensor_bcs self this_base (Tensor T env) = Inr (self', ev)"
  shows "groups_after T this_base \<le> 2 \<and>
      bcs self' = planes env (length (bc self))
        (drive_array env (groups_after T this_base)
           (boundary_array env this_base (axis this_base) (bc_time self) (bc self))) \<and>
      bcs_final self' = planes env (length (bc self))
        (forward_array env
           (boundary_array env this_base (axis this_base) (bc_time self) (bc self))) \<and>
      ev = drive_events (groups_after T this_base) @ forward_events env \<and>
      bc self' = bc self \<and> bc_time self' = bc_time self \<and>
      number_of_bases_after_this self' = Some (groups_after T this_base)"
proof -
  let ?M = "length (bc self)"
  from nonhom have M: "0 < ?M" by (cases "bc self") simp_all
  from res flag nonhom obtain ax n b r ev0 xs b_fin fs where
    cnt: "count_bases_after (bases T) this_base (rev (axes T)) (None, 0) = Inr (ax, n)"
    and fill: "fill_boundary env T this_base (axis this_base) (bc_time self) ?M 0
        (bc self) (new_Array env) = Inr b"
    and inter: "intermediate env n b = Inr (r, ev0)"
    and st1: "store_planes env ?M 0 ?M r (bcs self) = Inr xs"
    and fin: "final env b ev0 = Inr (b_fin, ev)"
    and st2: "store_planes env ?M 0 ?M (Some b_fin) (bcs_final self) = Inr fs"
    and self': "self' = self\<lparr>bv_axis := axis this_base, bv_base := this_base,
        tensorproductspace := Some (Tensor T env), number_of_bases_after_this := Some n,
        bcs := xs, bcs_final := fs\<rparr>"
    unfolding set_tensor_bcs_def Let_def
    by (auto simp: bind_err_Inr_iff)
  from count_bases_after_groups_after [OF cnt] have n: "n = groups_after T this_base" .
  from fill_boundary_array [OF fill] have b:
    "b = boundary_array env this_base (axis this_base) (bc_time self) (bc self)" .
  from st1 M store_planes_unbound [of ?M env ?M 0 "bcs self"] obtain b_hat where
    r: "r = Some b_hat"
    by (cases r) auto
  from intermediate_result [OF inter] r have n2: "n \<le> 2"
    and bh: "b_hat = drive_array env n b" and ev0: "ev0 = drive_events n"
    by (cases "n \<le> 2"; simp)+
  from final_result [OF fin] have bf: "b_fin = forward_array env b"
    and ev: "ev = ev0 @ forward_events env" by simp_all
  from st1 r len have xs: "xs = planes env ?M b_hat"
    by (simp add: store_planes_all)
  from st2 len have fs: "fs = planes env ?M b_fin"
    by (simp add: store_planes_all)
  from n n2 b bh ev0 bf ev xs fs self' show ?thesis by simp
qed

text \<open>
  With three or more groups after the axis the call raises.
\<close>

lemma set_tensor_bcs_beyond_two:
  assumes "has_nonhomogeneous_bcs this_base"
    and "bv_has_nonhomogeneous_bcs (np_all_zero env) (bc self)"
    and "length (bcs self) = length (bc self)" "length (bcs_final self) = length (bc self)"
    and "2 < groups_after T this_base"
  shows "\<exists>e. set_tensor_bcs self this_base (Tensor T env) = Inl e"
proof (cases "set_tensor_bcs self this_base (Tensor T env)")
  case (Inl e)
  then show ?thesis by blast
next
  case (Inr r)
  obtain self' ev where "r = (self', ev)" by (cases r)
  with Inr set_tensor_bcs_pipeline [OF assms(1-4), of T self' ev] assms(5)
  show ?thesis by auto
qed



subsection \<open>Zero boundary values\<close>

lemma zero_expr_denotes_zero: "eval_expr env zero_expr = 0"
  by (simp add: zero_expr_def algebra_simps power2_eq_square)




subsection \<open>The depth of the intermediate snapshot\<close>

lemma count_T2:
  "count_bases_after (bases T2) (dirichlet_base 3 0) (rev (axes T2)) (None, 0) = Inr (Some 0, 1)"
  by (simp add: T2_def dirichlet_base_def r2c_base_def)

lemma count_T4:
  "count_bases_after (bases T4) (dirichlet_base 3 0) (rev (axes T4)) (None, 0) = Inr (Some 0, 3)"
  by (simp add: T4_def dirichlet_base_def r2c_base_def c2c_base_def)

lemma nonzero_T2:
  "map_sum id (\<lambda>r. (bcs (fst r), bcs_final (fst r), snd r))
     (set_tensor_bcs (bv_new [Number 1, Number 0]) (dirichlet_base 3 0) (Tensor T2 env2))
   = Inr ([NdArray [[1, 0]], NdArray [[0, 0]]], [NdArray [[1, 0]], NdArray [[0, 0]]],
          [Stage 0, Transfer 0, Stage 0, Transfer 0, Stage 1])"
  by code_simp

lemma four_axes_projected:
  "map_sum id (\<lambda>r. ())
     (set_tensor_bcs (bv_new [Number 1, Number 0]) (dirichlet_base 3 0) (Tensor T4 env4))
   = Inl UnboundLocalError"
  by code_simp

text \<open>
  C3 fails on the code when three groups come after the axis: on four axes with the
  Dirichlet axis first and the boundary values 1 and 0, no branch assigns \<open>b_hat\<close> and
  \<open>set_tensor_bcs\<close> raises \<open>UnboundLocalError\<close> instead of driving the array through
  three stages and transfers.
\<close>

theorem C3_four_axes_unbound:
  "set_tensor_bcs (bv_new [Number 1, Number 0]) (dirichlet_base 3 0) (Tensor T4 env4)
     = Inl UnboundLocalError"
  using four_axes_projected
  by (cases "set_tensor_bcs (bv_new [Number 1, Number 0]) (dirichlet_base 3 0) (Tensor T4 env4)")
     simp_all

text \<open>
  The constructor calls \<open>set_tensor_bcs\<close> for every base with boundary values to set, so
  the orchestrator of these four bases cannot be constructed.
\<close>

lemma construct_four_axes_raises:
  "map_sum id (\<lambda>R. ())
     (construct ext4 (serial_comm 4)
        [dirichlet_base 3 0, c2c_base 2 1, c2c_base 2 2, r2c_base 2 3] AxesNone None
        False False False)
   = Inl UnboundLocalError"
  by code_simp

subsection \<open>Updates of the boundary specification\<close>




text \<open>
  \<open>update_bcs_time\<close> looks for the symbol \<open>t\<close> without assumptions. A boundary value
  written with \<open>sp.symbols('t', real=True)\<close> is not substituted: nothing is recomputed and
  the object stays as it is.
\<close>

lemma update_time_real_symbol:
  "update_bcs_time bv_time_real 3 = Inr (bv_time_real, [])"
  by (simp add: update_bcs_time_def bv_time_real_def bv_attached_def plain_t_def sym_y_def
      bind_err_def)










end
